theory Spec2Isabelle
  imports Main "HOL-Library.Word"
begin

section \<open>Host model: strings, platform, files\<close>

text \<open>
  The audio subsystem of the repository lives in \<^verbatim>\<open>electron/AudioHelper.ts\<close> (class
  \<^verbatim>\<open>AudioHelper\<close>) and in the audio handlers of \<^verbatim>\<open>electron/ipcHandlers.ts\<close>.
  Everything the code reads from its host (the platform tag, the file system, child
  processes, the configuration, the network) is an explicit argument of the embedded
  functions; everything it changes is returned. Thrown JavaScript errors are carried by
  their \<^verbatim>\<open>message\<close> string, on the left of a sum. Console output is left out unless a
  property is about it.
\<close>

type_synonym byte = "8 word"

datatype platform = Win32 | Darwin | Linux | OtherPlatform

datatype node = File "byte list" | Dir

datatype fs_op = OpOpen | OpWrite | OpUnlink | OpMkdir | OpRead

text \<open>
  A file system is the table of its nodes plus the operations the host refuses on a path
  (permissions, locks, a full disk ...), each with the message of the error it throws.
  Writing a file has two phases that can be refused: opening it for writing (\<open>OpOpen\<close>),
  which leaves everything as it is, and writing the bytes (\<open>OpWrite\<close>), by which time
  the file has been created or truncated and stays behind empty.
\<close>

record filesystem =
  nodes :: "string \<rightharpoonup> node"
  refuses :: "fs_op \<Rightarrow> string \<Rightarrow> string option"

definition squote :: "string \<Rightarrow> string" where
  "squote p = CHR 0x27 # p @ [CHR 0x27]"

definition existsSync :: "filesystem \<Rightarrow> string \<Rightarrow> bool" where
  "existsSync fs p = (nodes fs p \<noteq> None)"

text \<open>
  \<^verbatim>\<open>fs.writeFileSync\<close>: the error thrown together with the file system the failed call
  leaves, or the file system that holds the new content.
\<close>

definition writeFileSync ::
  "filesystem \<Rightarrow> string \<Rightarrow> byte list \<Rightarrow> string \<times> filesystem + filesystem" where
  "writeFileSync fs p content =
     (case refuses fs OpOpen p of
        Some msg \<Rightarrow> Inl (msg, fs)
      | None \<Rightarrow>
          (case nodes fs p of
             Some Dir \<Rightarrow>
               Inl (''EISDIR: illegal operation on a directory, open '' @ squote p, fs)
           | _ \<Rightarrow>
               (case refuses fs OpWrite p of
                  Some msg \<Rightarrow> Inl (msg, fs\<lparr>nodes := (nodes fs)(p \<mapsto> File [])\<rparr>)
                | None \<Rightarrow> Inr (fs\<lparr>nodes := (nodes fs)(p \<mapsto> File content)\<rparr>))))"

definition readFileSync :: "filesystem \<Rightarrow> string \<Rightarrow> string + byte list" where
  "readFileSync fs p =
     (case refuses fs OpRead p of
        Some msg \<Rightarrow> Inl msg
      | None \<Rightarrow>
          (case nodes fs p of
             None \<Rightarrow> Inl (''ENOENT: no such file or directory, open '' @ squote p)
           | Some Dir \<Rightarrow> Inl ''EISDIR: illegal operation on a directory, read''
           | Some (File content) \<Rightarrow> Inr content))"

definition unlinkSync :: "filesystem \<Rightarrow> string \<Rightarrow> string + filesystem" where
  "unlinkSync fs p =
     (case refuses fs OpUnlink p of
        Some msg \<Rightarrow> Inl msg
      | None \<Rightarrow>
          (case nodes fs p of
             None \<Rightarrow> Inl (''ENOENT: no such file or directory, unlink '' @ squote p)
           | Some Dir \<Rightarrow> Inl (''EPERM: operation not permitted, unlink '' @ squote p)
           | Some (File content) \<Rightarrow> Inr (fs\<lparr>nodes := (nodes fs)(p := None)\<rparr>)))"

text \<open>\<^verbatim>\<open>fs.mkdirSync(p, { recursive: true })\<close>; parent directories are not tracked.\<close>

definition mkdirSync :: "filesystem \<Rightarrow> string \<Rightarrow> string + filesystem" where
  "mkdirSync fs p =
     (case refuses fs OpMkdir p of
        Some msg \<Rightarrow> Inl msg
      | None \<Rightarrow>
          (case nodes fs p of
             Some (File content) \<Rightarrow> Inl (''EEXIST: file already exists, mkdir '' @ squote p)
           | _ \<Rightarrow> Inr (fs\<lparr>nodes := (nodes fs)(p \<mapsto> Dir)\<rparr>)))"

text \<open>
  \<^verbatim>\<open>path.join\<close>, \<^verbatim>\<open>path.isAbsolute\<close> and \<^verbatim>\<open>path.basename\<close> belong to the Node runtime
  and differ between platforms; the embedded functions take them as arguments.
\<close>

record path_api =
  pathJoin :: "string \<Rightarrow> string \<Rightarrow> string"
  pathIsAbsolute :: "string \<Rightarrow> bool"
  pathBasename :: "string \<Rightarrow> string"

text \<open>A POSIX-flavoured instance without normalisation, for concrete evaluations.\<close>

definition posix :: path_api where
  "posix = \<lparr> pathJoin = (\<lambda>a b. a @ ''/'' @ b),
             pathIsAbsolute = (\<lambda>p. case p of [] \<Rightarrow> False | c # cs \<Rightarrow> c = CHR ''/''),
             pathBasename = (\<lambda>p. rev (takeWhile (\<lambda>c. c \<noteq> CHR ''/'') (rev p))) \<rparr>"

section \<open>The AudioHelper object\<close>

text \<open>
  \<^verbatim>\<open>recordingProcess\<close> is typed \<^verbatim>\<open>any\<close> in the source; the only thing read from it is
  its \<^verbatim>\<open>pid\<close>, which a child process that failed to spawn does not have.
\<close>

record child_process =
  pid :: "nat option"

record AudioHelper =
  isRecording :: bool
  currentRecordingPath :: "string option"
  recordingProcess :: "child_process option"
  audioDir :: string
  ffmpegPath :: "string option"

text \<open>The result objects \<^verbatim>\<open>{ success, error?, path? }\<close> of the recording methods.\<close>

record rec_result =
  success :: bool
  error :: "string option"
  path :: "string option"

definition rec_fail :: "string \<Rightarrow> rec_result" where
  "rec_fail msg = \<lparr> success = False, error = Some msg, path = None \<rparr>"

definition rec_ok :: "string option \<Rightarrow> rec_result" where
  "rec_ok p = \<lparr> success = True, error = None, path = p \<rparr>"

text \<open>JavaScript truthiness of a \<^verbatim>\<open>string | null\<close> value: null and the empty string are falsy.\<close>

definition truthy :: "string option \<Rightarrow> bool" where
  "truthy v = (case v of None \<Rightarrow> False | Some s \<Rightarrow> s \<noteq> [])"

section \<open>The fallback synthesizer\<close>

definition wavHeader :: "byte list" where
  "wavHeader =
     [0x52, 0x49, 0x46, 0x46,
      0x24, 0x00, 0x00, 0x00,
      0x57, 0x41, 0x56, 0x45,
      0x66, 0x6d, 0x74, 0x20,
      0x10, 0x00, 0x00, 0x00,
      0x01, 0x00,
      0x01, 0x00,
      0x44, 0xac, 0x00, 0x00,
      0x88, 0x58, 0x01, 0x00,
      0x02, 0x00,
      0x10, 0x00,
      0x64, 0x61, 0x74, 0x61,
      0x00, 0x00, 0x00, 0x00]"

text \<open>What \<^verbatim>\<open>fs.writeFileSync(null, ...)\<close> throws.\<close>

definition invalidPathMessage :: string where
  "invalidPathMessage =
     ''The '' @ [CHR 0x22] @ ''path'' @ [CHR 0x22] @
     '' argument must be of type string or an instance of Buffer or URL. Received null''"

text \<open>
  \<^verbatim>\<open>simulateRecording\<close>: write the header to the current recording path, then raise the
  recording flag. A failing write is caught and reported; the flag is not touched then,
  and the file system is the one the failed write leaves.
\<close>

definition simulateRecording ::
  "AudioHelper \<Rightarrow> filesystem \<Rightarrow> rec_result \<times> AudioHelper \<times> filesystem" where
  "simulateRecording h fs =
     (case (case currentRecordingPath h of
              None \<Rightarrow> Inl (invalidPathMessage, fs)
            | Some p \<Rightarrow> writeFileSync fs p wavHeader) of
        Inl (msg, fs') \<Rightarrow> (rec_fail (''Failed to simulate recording: '' @ msg), h, fs')
      | Inr fs' \<Rightarrow> (rec_ok (currentRecordingPath h), h\<lparr>isRecording := True\<rparr>, fs'))"

subsection \<open>Reading a WAV header\<close>

text \<open>
  Field offsets and meanings as the comments of the byte table in the source give them:
  chunk size = 36 + data size, format tag, channels, sample rate, byte rate =
  rate * channels * bytes per sample, block align, bits per sample, data size. All
  integers are little-endian.
\<close>

definition le16 :: "byte list \<Rightarrow> nat \<Rightarrow> nat" where
  "le16 bs i = unat (bs ! i) + 256 * unat (bs ! (i + 1))"

definition le32 :: "byte list \<Rightarrow> nat \<Rightarrow> nat" where
  "le32 bs i = le16 bs i + 65536 * le16 bs (i + 2)"

definition tag_at :: "byte list \<Rightarrow> nat \<Rightarrow> string \<Rightarrow> bool" where
  "tag_at bs i t = (take (length t) (drop i bs) = map (\<lambda>c. of_nat (of_char c)) t)"

definition wav_format :: "byte list \<Rightarrow> nat" where "wav_format bs = le16 bs 20"
definition wav_channels :: "byte list \<Rightarrow> nat" where "wav_channels bs = le16 bs 22"
definition wav_sample_rate :: "byte list \<Rightarrow> nat" where "wav_sample_rate bs = le32 bs 24"
definition wav_byte_rate :: "byte list \<Rightarrow> nat" where "wav_byte_rate bs = le32 bs 28"
definition wav_block_align :: "byte list \<Rightarrow> nat" where "wav_block_align bs = le16 bs 32"
definition wav_bits :: "byte list \<Rightarrow> nat" where "wav_bits bs = le16 bs 34"
definition wav_data_size :: "byte list \<Rightarrow> nat" where "wav_data_size bs = le32 bs 40"

text \<open>Structural validity of a canonical PCM WAV file: the header and the payload agree.\<close>

definition wav_valid :: "byte list \<Rightarrow> bool" where
  "wav_valid bs =
     (44 \<le> length bs \<and>
      tag_at bs 0 ''RIFF'' \<and> le32 bs 4 = length bs - 8 \<and>
      tag_at bs 8 ''WAVE'' \<and> tag_at bs 12 ''fmt '' \<and> le32 bs 16 = 16 \<and>
      wav_format bs = 1 \<and>
      wav_block_align bs * 8 = wav_channels bs * wav_bits bs \<and>
      wav_byte_rate bs = wav_sample_rate bs * wav_block_align bs \<and>
      tag_at bs 36 ''data'' \<and> wav_data_size bs = length bs - 44)"

section \<open>Device discovery\<close>

subsection \<open>The string operations it uses\<close>

text \<open>\<^verbatim>\<open>s.includes(sub)\<close>: \<^verbatim>\<open>sub\<close> occurs in \<^verbatim>\<open>s\<close> as a contiguous, case-sensitive substring.\<close>

fun startsWith :: "string \<Rightarrow> string \<Rightarrow> bool" where
  "startsWith s [] = True"
| "startsWith [] (c # cs) = False"
| "startsWith (x # xs) (c # cs) = (x = c \<and> startsWith xs cs)"

fun str_includes :: "string \<Rightarrow> string \<Rightarrow> bool" where
  "str_includes [] sub = (sub = [])"
| "str_includes (x # xs) sub = (startsWith (x # xs) sub \<or> str_includes xs sub)"

text \<open>\<^verbatim>\<open>s.split(c)\<close> for a one-character separator; the empty string gives one empty piece.\<close>

fun split_on :: "char \<Rightarrow> string \<Rightarrow> string list" where
  "split_on c [] = [[]]"
| "split_on c (x # xs) =
     (if x = c then [] # split_on c xs
      else (case split_on c xs of
              [] \<Rightarrow> [[x]]
            | l # ls \<Rightarrow> (x # l) # ls))"

text \<open>
  \<^verbatim>\<open>line.match(/"([^"]+)"/)\<close>, returning capture group 1: the leftmost double quote that is
  followed by at least one character other than a double quote and then by a double quote.
\<close>

definition dquote :: char where
  "dquote = CHR 0x22"

fun match_quoted :: "string \<Rightarrow> string option" where
  "match_quoted [] = None"
| "match_quoted (c # cs) =
     (if c = dquote \<and> takeWhile (\<lambda>x. x \<noteq> dquote) cs \<noteq> [] \<and> dropWhile (\<lambda>x. x \<noteq> dquote) cs \<noteq> []
      then Some (takeWhile (\<lambda>x. x \<noteq> dquote) cs)
      else match_quoted cs)"

subsection \<open>listAudioDevices\<close>

text \<open>
  How \<^verbatim>\<open>await execFileAsync(...)\<close> ends: resolved with the two output streams, rejected
  with an error object (whose \<^verbatim>\<open>stderr\<close> may be missing), or thrown before a promise exists.
\<close>

datatype exec_outcome =
    Resolved string string
  | Rejected "string option"
  | Thrown string

definition listDevicesArgs :: "platform \<Rightarrow> string list" where
  "listDevicesArgs plat =
     (if plat = Win32 then [''-list_devices'', ''true'', ''-f'', ''dshow'', ''-i'', ''dummy'']
      else [''-list_devices'', ''true'', ''-f'',
            (if plat = Darwin then ''avfoundation'' else ''alsa''), ''-i'', ''dummy''])"

text \<open>The diagnostic text: \<^verbatim>\<open>stderr\<close> of the result, or \<^verbatim>\<open>err.stderr || ''\<close> after a rejection.\<close>

definition diagnosticText :: "exec_outcome \<Rightarrow> string option" where
  "diagnosticText out =
     (case out of
        Resolved sout serr \<Rightarrow> Some serr
      | Rejected e \<Rightarrow> Some (if truthy e then the e else [])
      | Thrown msg \<Rightarrow> None)"

definition audioMarker :: string where
  "audioMarker = ''(audio)''"

text \<open>The first loop: one pass over the lines, pushing every extracted name.\<close>

fun scanLines :: "string list \<Rightarrow> string list \<Rightarrow> string list" where
  "scanLines [] audioDevices = audioDevices"
| "scanLines (line # rest) audioDevices =
     (if str_includes line audioMarker
      then (case match_quoted line of
              Some name \<Rightarrow> scanLines rest (audioDevices @ [name])
            | None \<Rightarrow> scanLines rest audioDevices)
      else scanLines rest audioDevices)"

definition commonMicNames :: "string list" where
  "commonMicNames = [''Microphone'', ''Mic'', ''Audio'', ''Input'', ''Headset'']"

text \<open>
  The inner loop over the name fragments, which breaks at the first fragment the device
  name contains; the result is that fragment, or \<open>None\<close> when the loop runs to its end.
\<close>

fun firstIncluded :: "string list \<Rightarrow> string \<Rightarrow> string option" where
  "firstIncluded [] device = None"
| "firstIncluded (name # names) device =
     (if str_includes device name then Some name else firstIncluded names device)"

text \<open>The console lines of the parsing block.\<close>

datatype console_line =
    FoundAudioDevice string
  | DetectedAudioDevices "string list"
  | FoundLikelyMicrophone string

fun likelyMicrophoneLines :: "string list \<Rightarrow> console_line list" where
  "likelyMicrophoneLines [] = []"
| "likelyMicrophoneLines (device # rest) =
     (case firstIncluded commonMicNames device of
        Some name \<Rightarrow> FoundLikelyMicrophone device # likelyMicrophoneLines rest
      | None \<Rightarrow> likelyMicrophoneLines rest)"

record device_listing =
  devices :: "string list"
  console :: "console_line list"

definition noDevices :: device_listing where
  "noDevices = \<lparr> devices = [], console = [] \<rparr>"

definition listAudioDevices ::
  "AudioHelper \<Rightarrow> platform \<Rightarrow> (string \<Rightarrow> string list \<Rightarrow> exec_outcome) \<Rightarrow> device_listing" where
  "listAudioDevices h plat exec =
     (if \<not> truthy (ffmpegPath h) then noDevices
      else (case diagnosticText (exec (the (ffmpegPath h)) (listDevicesArgs plat)) of
              None \<Rightarrow> noDevices
            | Some stderr \<Rightarrow>
                if plat = Win32
                then (let audioDevices = scanLines (split_on CHR 0x0A stderr) []
                      in \<lparr> devices = audioDevices,
                           console = map FoundAudioDevice audioDevices
                                     @ [DetectedAudioDevices audioDevices]
                                     @ likelyMicrophoneLines audioDevices \<rparr>)
                else noDevices))"

section \<open>The recording controller\<close>

text \<open>
  \<^verbatim>\<open>startRecording\<close>. \<^verbatim>\<open>uuid\<close> is what \<^verbatim>\<open>uuidv4()\<close> does in this call: a fresh
  identifier, or a thrown error, which only the outer handler of \<^verbatim>\<open>startRecording\<close>
  can catch. The capture strategy is always the fallback synthesizer.
\<close>

definition startRecording ::
  "AudioHelper \<Rightarrow> path_api \<Rightarrow> string + string \<Rightarrow> filesystem
     \<Rightarrow> rec_result \<times> AudioHelper \<times> filesystem" where
  "startRecording h api uuid fs =
     (if isRecording h then (rec_fail ''Already recording'', h, fs)
      else (case uuid of
              Inl msg \<Rightarrow>
                (rec_fail (''Failed to start recording: '' @ msg),
                 h\<lparr>isRecording := False, currentRecordingPath := None\<rparr>, fs)
            | Inr u \<Rightarrow>
                simulateRecording
                  (h\<lparr>currentRecordingPath :=
                       Some (pathJoin api (audioDir h) (''recording-'' @ u @ ''.wav''))\<rparr>) fs))"

text \<open>
  The hardware path, present in the class but not called by \<^verbatim>\<open>startRecording\<close>.
  \<^verbatim>\<open>startWindowsRecording\<close> looks for a microphone among the discovered devices and then
  uses the synthesizer whatever it found.
\<close>

definition windowsMicNames :: "string list" where
  "windowsMicNames = [''Microphone'', ''Mic'', ''Headset'']"

fun findMicrophone :: "string list \<Rightarrow> string option" where
  "findMicrophone [] = None"
| "findMicrophone (device # rest) =
     (case firstIncluded windowsMicNames device of
        Some name \<Rightarrow> Some device
      | None \<Rightarrow> findMicrophone rest)"

definition microphoneDevice :: "string list \<Rightarrow> string option" where
  "microphoneDevice audioDevices =
     (case audioDevices of
        [] \<Rightarrow> None
      | first # rest \<Rightarrow>
          (case findMicrophone audioDevices of
             Some device \<Rightarrow> Some device
           | None \<Rightarrow> Some first))"

definition startWindowsRecording ::
  "AudioHelper \<Rightarrow> platform \<Rightarrow> (string \<Rightarrow> string list \<Rightarrow> exec_outcome) \<Rightarrow> filesystem
     \<Rightarrow> rec_result \<times> AudioHelper \<times> filesystem" where
  "startWindowsRecording h plat exec fs =
     (case microphoneDevice (devices (listAudioDevices h plat exec)) of
        None \<Rightarrow> simulateRecording h fs
      | Some device \<Rightarrow> simulateRecording h fs)"

definition ffmpegArgs :: "platform \<Rightarrow> string option \<Rightarrow> string option list" where
  "ffmpegArgs plat target =
     [Some ''-f'',
      Some (if plat = Darwin then ''avfoundation'' else if plat = Linux then ''alsa'' else ''dshow''),
      Some ''-i'',
      Some (if plat = Darwin then '':0'' else if plat = Linux then ''default''
            else ''audio=Microphone Array (Realtek(R) Audio)''),
      Some ''-acodec'', Some ''pcm_s16le'', Some ''-ar'', Some ''44100'', Some ''-ac'', Some ''1'',
      target]"

text \<open>\<^verbatim>\<open>spawn\<close> is \<^verbatim>\<open>execFile\<close>: a child process handle, or an error thrown at once.\<close>

definition startFFmpegRecording ::
  "AudioHelper \<Rightarrow> platform \<Rightarrow> (string \<Rightarrow> string list \<Rightarrow> exec_outcome)
     \<Rightarrow> (string option \<Rightarrow> string option list \<Rightarrow> string + child_process) \<Rightarrow> filesystem
     \<Rightarrow> rec_result \<times> AudioHelper \<times> filesystem" where
  "startFFmpegRecording h plat exec spawn fs =
     (if plat = Win32 then startWindowsRecording h plat exec fs
      else (case spawn (ffmpegPath h) (ffmpegArgs plat (currentRecordingPath h)) of
              Inl msg \<Rightarrow> (rec_fail (''Failed to start FFmpeg recording: '' @ msg), h, fs)
            | Inr p \<Rightarrow>
                (rec_ok (currentRecordingPath h),
                 h\<lparr>recordingProcess := Some p, isRecording := True\<rparr>, fs)))"

text \<open>
  \<^verbatim>\<open>stopRecording\<close>. \<^verbatim>\<open>killError\<close> and \<^verbatim>\<open>taskkillError\<close> say whether
  \<^verbatim>\<open>recordingProcess.kill()\<close> and the \<^verbatim>\<open>taskkill\<close> call throw, and with what message;
  \<^verbatim>\<open>fs\<close> is the file system the existence checks see. Besides the result and the new
  object state, the function returns the termination actions it issued. The one-second
  wait after the termination and the size check of an existing artifact (which only
  writes a warning) have no counterpart here.
\<close>

datatype proc_action = Kill | Taskkill nat

text \<open>The artifact check and the final reset, shared by both kinds of session.\<close>

definition verifyAndReset :: "AudioHelper \<Rightarrow> filesystem \<Rightarrow> rec_result \<times> AudioHelper" where
  "verifyAndReset h fs =
     (if truthy (currentRecordingPath h) \<and> \<not> existsSync fs (the (currentRecordingPath h))
      then (rec_fail ''Recording file not found after stopping'', h)
      else (rec_ok (currentRecordingPath h),
            h\<lparr>isRecording := False, currentRecordingPath := None\<rparr>))"

text \<open>The handler of the outer \<^verbatim>\<open>try\<close>.\<close>

definition stopFailed :: "AudioHelper \<Rightarrow> string \<Rightarrow> rec_result \<times> AudioHelper" where
  "stopFailed h msg =
     (rec_fail (''Failed to stop recording: '' @ msg),
      h\<lparr>isRecording := False, currentRecordingPath := None\<rparr>)"

definition stopRecording ::
  "AudioHelper \<Rightarrow> platform \<Rightarrow> string option \<Rightarrow> string option \<Rightarrow> filesystem
     \<Rightarrow> rec_result \<times> AudioHelper \<times> proc_action list" where
  "stopRecording h plat killError taskkillError fs =
     (if \<not> isRecording h then (rec_fail ''Not currently recording'', h, [])
      else (case recordingProcess h of
              Some p \<Rightarrow>
                if plat = Win32
                then (let actions =
                            (case killError of
                               Some msg \<Rightarrow> [Kill]
                             | None \<Rightarrow>
                                 (case pid p of
                                    None \<Rightarrow> [Kill]
                                  | Some n \<Rightarrow> if n = 0 then [Kill] else [Kill, Taskkill n]));
                          (r, h') = verifyAndReset (h\<lparr>recordingProcess := None\<rparr>) fs
                      in (r, h', actions))
                else (case killError of
                        Some msg \<Rightarrow> (let (r, h') = stopFailed h msg in (r, h', [Kill]))
                      | None \<Rightarrow>
                          (let (r, h') = verifyAndReset (h\<lparr>recordingProcess := None\<rparr>) fs
                           in (r, h', [Kill])))
            | None \<Rightarrow>
                if truthy (currentRecordingPath h) \<and> \<not> existsSync fs (the (currentRecordingPath h))
                then (let (r, h') = stopFailed h ''Recording file not found'' in (r, h', []))
                else (let (r, h') = verifyAndReset h fs in (r, h', []))))"

record recording_status =
  recording :: bool
  recordingPath :: "string option"

definition getRecordingStatus :: "AudioHelper \<Rightarrow> recording_status" where
  "getRecordingStatus h = \<lparr> recording = isRecording h, recordingPath = currentRecordingPath h \<rparr>"

section \<open>The transcription client\<close>

text \<open>The result objects \<^verbatim>\<open>{ success, error?, text? }\<close>.\<close>

record tr_result =
  tr_success :: bool
  tr_error :: "string option"
  tr_text :: "string option"

definition tr_fail :: "string \<Rightarrow> tr_result" where
  "tr_fail msg = \<lparr> tr_success = False, tr_error = Some msg, tr_text = None \<rparr>"

text \<open>
  What the network does with the one request of a call. \<^verbatim>\<open>response.json()\<close> either
  yields a value, of which the code reads \<^verbatim>\<open>error?.message\<close> and \<^verbatim>\<open>text\<close>, or throws.
  \<open>TimerFires\<close> is the run in which the 30-second timer expires while the request is in
  flight: its callback calls \<^verbatim>\<open>controller.abort()\<close>, and the pending \<^verbatim>\<open>await\<close> is
  rejected with the abort error of the fetch library, whose message the constructor carries.
\<close>

datatype json_outcome =
    JsonValue "string option" "string option"
  | JsonThrows string

datatype fetch_outcome =
    Response bool string json_outcome
  | FetchRejects string
  | TimerFires string

text \<open>The effects of a call on timers and on the network, in the order they happen.\<close>

datatype net_event =
    TimerSet nat
  | RequestSent string string string "byte list"
  | RequestAborted
  | TimerCleared

definition transcriptionUrl :: string where
  "transcriptionUrl = ''https://api.openai.com/v1/audio/transcriptions''"

definition transcribeFailed :: "string \<Rightarrow> tr_result" where
  "transcribeFailed msg = tr_fail (''Failed to transcribe audio: '' @ msg)"

definition fullPath :: "AudioHelper \<Rightarrow> path_api \<Rightarrow> string \<Rightarrow> string" where
  "fullPath h api audioPath =
     (if pathIsAbsolute api audioPath then audioPath else pathJoin api (audioDir h) audioPath)"

text \<open>
  \<^verbatim>\<open>transcribeAudio\<close>. \<^verbatim>\<open>apiKey\<close> is \<^verbatim>\<open>configHelper.loadConfig().apiKey\<close>; the request
  events are \<open>RequestSent url authorization filename body\<close>.
\<close>

definition transcribeAudio ::
  "AudioHelper \<Rightarrow> path_api \<Rightarrow> filesystem \<Rightarrow> string option \<Rightarrow> fetch_outcome \<Rightarrow> string
     \<Rightarrow> tr_result \<times> net_event list" where
  "transcribeAudio h api fs apiKey net audioPath =
     (if \<not> existsSync fs (fullPath h api audioPath) then (tr_fail ''Audio file not found'', [])
      else if \<not> truthy apiKey then (tr_fail ''OpenAI API key not configured'', [])
      else (case readFileSync fs (fullPath h api audioPath) of
              Inl msg \<Rightarrow> (transcribeFailed msg, [])
            | Inr audioData \<Rightarrow>
                (let issued = [TimerSet 30000,
                             RequestSent transcriptionUrl (''Bearer '' @ the apiKey)
                               (pathBasename api (fullPath h api audioPath)) audioData]
                 in (case net of
                       FetchRejects msg \<Rightarrow> (transcribeFailed msg, issued @ [TimerCleared])
                     | TimerFires msg \<Rightarrow>
                         (transcribeFailed msg, issued @ [RequestAborted, TimerCleared])
                     | Response ok statusText body \<Rightarrow>
                         (case body of
                            JsonThrows msg \<Rightarrow> (transcribeFailed msg, issued @ [TimerCleared])
                          | JsonValue errorMessage txt \<Rightarrow>
                              if \<not> ok
                              then (transcribeFailed
                                      (''OpenAI API error: '' @
                                        (if truthy errorMessage then the errorMessage
                                         else statusText)),
                                    issued @ [TimerCleared])
                              else (\<lparr> tr_success = True, tr_error = None, tr_text = txt \<rparr>,
                                    issued @ [TimerCleared]))))))"

section \<open>The inline-payload command\<close>

text \<open>
  The handler of \<^verbatim>\<open>transcribe-web-audio\<close>. Its environment: the answers of the
  configuration helper and of \<^verbatim>\<open>getAudioHelper()\<close>, whether a main window exists, the
  temporary directory, the identifier \<^verbatim>\<open>uuidv4()\<close> yields (or the error it throws), the
  base64 decoder of \<^verbatim>\<open>Buffer.from\<close>, the file system, and what \<^verbatim>\<open>transcribeAudio\<close>
  needs.
\<close>

record ipc_env =
  hasApiKey :: bool
  audioHelper :: "AudioHelper option"
  mainWindow :: bool
  tmpdir :: string
  uuidv4 :: "string + string"
  fromBase64 :: "string \<Rightarrow> byte list"
  paths :: path_api
  files :: filesystem
  configApiKey :: "string option"
  network :: fetch_outcome

datatype notification =
    ApiKeyInvalid
  | TranscriptionStarted
  | TranscriptionCompleted string
  | TranscriptionError string

record ipc_outcome =
  response :: tr_result
  sent :: "notification list"
  requests :: "net_event list"
  filesAfter :: filesystem

text \<open>\<^verbatim>\<open>mainWindow.webContents.send\<close> behind \<^verbatim>\<open>if (mainWindow)\<close>.\<close>

definition notify :: "ipc_env \<Rightarrow> notification \<Rightarrow> notification list" where
  "notify env n = (if mainWindow env then [n] else [])"

text \<open>\<^verbatim>\<open>x || fallback\<close> on an optional string.\<close>

definition orElse :: "string option \<Rightarrow> string \<Rightarrow> string" where
  "orElse v fallback = (if truthy v then the v else fallback)"

text \<open>What \<^verbatim>\<open>Buffer.from(undefined, 'base64')\<close> throws when the payload has no comma.\<close>

definition invalidBufferMessage :: string where
  "invalidBufferMessage =
     ''The first argument must be of type string or an instance of Buffer, ArrayBuffer, '' @
     ''or Array or an Array-like Object. Received undefined''"

definition tempDir :: "ipc_env \<Rightarrow> string" where
  "tempDir env = pathJoin (paths env) (tmpdir env) ''voice-assistant''"

definition tempFilePath :: "ipc_env \<Rightarrow> string \<Rightarrow> string" where
  "tempFilePath env u = pathJoin (paths env) (tempDir env) (''web-audio-'' @ u @ ''.webm'')"

text \<open>
  Decoding the payload and saving it: the second piece of \<^verbatim>\<open>base64Audio.split(',')\<close>
  is decoded, the temporary directory is created when it is missing, and the buffer is
  written. Any throw ends in the outer handler (\<open>Inl\<close>, with the file system as it is
  at that moment); otherwise the path of the temporary file and the file system that holds
  it are returned.
\<close>

definition saveWebAudio ::
  "ipc_env \<Rightarrow> string \<Rightarrow> string \<times> filesystem + string \<times> filesystem" where
  "saveWebAudio env base64Audio =
     (case split_on CHR '','' base64Audio of
        scheme # base64Data # others \<Rightarrow>
          (case (if existsSync (files env) (tempDir env) then Inr (files env)
                 else mkdirSync (files env) (tempDir env)) of
             Inl msg \<Rightarrow> Inl (msg, files env)
           | Inr fs1 \<Rightarrow>
               (case uuidv4 env of
                  Inl msg \<Rightarrow> Inl (msg, fs1)
                | Inr u \<Rightarrow>
                    (case writeFileSync fs1 (tempFilePath env u) (fromBase64 env base64Data) of
                       Inl (msg, fs2) \<Rightarrow> Inl (msg, fs2)
                     | Inr fs2 \<Rightarrow> Inr (tempFilePath env u, fs2))))
      | _ \<Rightarrow> Inl (invalidBufferMessage, files env))"

text \<open>The cleanup: \<^verbatim>\<open>try { fs.unlinkSync(tempFilePath) } catch (cleanupError) { log }\<close>.\<close>

definition cleanup :: "filesystem \<Rightarrow> string \<Rightarrow> filesystem" where
  "cleanup fs p = (case unlinkSync fs p of Inl msg \<Rightarrow> fs | Inr fs' \<Rightarrow> fs')"

definition transcribeWebAudio :: "ipc_env \<Rightarrow> string \<Rightarrow> ipc_outcome" where
  "transcribeWebAudio env base64Audio =
     (if \<not> hasApiKey env
      then \<lparr> response = tr_fail ''API key required'', sent = notify env ApiKeyInvalid,
             requests = [], filesAfter = files env \<rparr>
      else (case audioHelper env of
              None \<Rightarrow> \<lparr> response = tr_fail ''Audio helper not available'', sent = [],
                        requests = [], filesAfter = files env \<rparr>
            | Some h \<Rightarrow>
                (case saveWebAudio env base64Audio of
                   Inl (msg, fs1) \<Rightarrow>
                     \<lparr> response = tr_fail (orElse (Some msg) ''Failed to transcribe audio''),
                       sent = notify env TranscriptionStarted
                              @ notify env (TranscriptionError (orElse (Some msg) ''Unknown error'')),
                       requests = [], filesAfter = fs1 \<rparr>
                 | Inr (p, fs2) \<Rightarrow>
                     (let (result, events) =
                            transcribeAudio h (paths env) fs2 (configApiKey env) (network env) p
                      in \<lparr> response = result,
                           sent = notify env TranscriptionStarted
                                  @ notify env
                                      (if tr_success result \<and> truthy (tr_text result)
                                       then TranscriptionCompleted (the (tr_text result))
                                       else TranscriptionError
                                              (orElse (tr_error result) ''Unknown error'')),
                           requests = events,
                           filesAfter = cleanup fs2 p \<rparr>))))"

section \<open>Sessions, call sequences and reference notions\<close>

text \<open>
  The class keeps one boolean; the session is idle when it is down and recording when it
  is up. The stopping phase lasts from the guard of \<^verbatim>\<open>stopRecording\<close> to its reset
  and is never visible between two calls.
\<close>

datatype session_state = Idle | Recording | Stopping

definition sessionState :: "AudioHelper \<Rightarrow> session_state" where
  "sessionState h = (if isRecording h then Recording else Idle)"

text \<open>The object as the constructor leaves it.\<close>

definition newAudioHelper :: "string \<Rightarrow> string option \<Rightarrow> AudioHelper" where
  "newAudioHelper dir ffmpeg =
     \<lparr> isRecording = False, currentRecordingPath = None, recordingProcess = None,
       audioDir = dir, ffmpegPath = ffmpeg \<rparr>"

text \<open>
  A sequence of calls, each with what the host does during it; between two calls the host
  may replace the file system by another one.
\<close>

datatype call =
    StartRecording "string + string"
  | StopRecording "string option" "string option"
  | HostChange filesystem

fun step ::
  "path_api \<Rightarrow> platform \<Rightarrow> AudioHelper \<times> filesystem \<Rightarrow> call \<Rightarrow> AudioHelper \<times> filesystem" where
  "step api plat (h, fs) (StartRecording uuid) = snd (startRecording h api uuid fs)"
| "step api plat (h, fs) (StopRecording killError taskkillError) =
     (fst (snd (stopRecording h plat killError taskkillError fs)), fs)"
| "step api plat (h, fs) (HostChange fs') = (h, fs')"

definition run ::
  "path_api \<Rightarrow> platform \<Rightarrow> AudioHelper \<times> filesystem \<Rightarrow> call list
     \<Rightarrow> AudioHelper \<times> filesystem" where
  "run api plat w calls = foldl (step api plat) w calls"

text \<open>The invariant that ties the flag to the path.\<close>

definition recordingHasPath :: "AudioHelper \<Rightarrow> bool" where
  "recordingHasPath h = (isRecording h \<longrightarrow> currentRecordingPath h \<noteq> None)"

text \<open>
  The device names as the specification words them: for each line of the diagnostic text
  that contains the audio marker, in order, the name taken from its quoted text.
\<close>

definition quotedAudioNames :: "string \<Rightarrow> string list" where
  "quotedAudioNames diagnostic =
     List.map_filter
       (\<lambda>line. if str_includes line audioMarker then match_quoted line else None)
       (split_on CHR 0x0A diagnostic)"

section \<open>Concrete hosts\<close>

definition emptyDisk :: filesystem where
  "emptyDisk = \<lparr> nodes = Map.empty, refuses = (\<lambda>op p. None) \<rparr>"

definition fullDisk :: filesystem where
  "fullDisk =
     \<lparr> nodes = Map.empty,
       refuses = (\<lambda>op p. if op = OpWrite then Some ''ENOSPC: no space left on device, write''
                         else None) \<rparr>"

definition clipDisk :: filesystem where
  "clipDisk =
     \<lparr> nodes = [''/data/audio/clip.wav'' \<mapsto> File wavHeader], refuses = (\<lambda>op p. None) \<rparr>"


text \<open>A disk on which files can be created but not removed (held open by another program).\<close>

definition busyDisk :: filesystem where
  "busyDisk =
     \<lparr> nodes = Map.empty,
       refuses = (\<lambda>op p. if op = OpUnlink then Some ''EBUSY: resource busy or locked, unlink''
                         else None) \<rparr>"

definition idleHelper :: AudioHelper where
  "idleHelper = newAudioHelper ''/data/audio'' (Some ''/usr/bin/ffmpeg'')"

definition pendingHelper :: AudioHelper where
  "pendingHelper = idleHelper\<lparr>currentRecordingPath := Some ''/data/audio/recording-1.wav''\<rparr>"

definition captureSession :: AudioHelper where
  "captureSession =
     pendingHelper\<lparr>recordingProcess := Some \<lparr> pid = Some 4242 \<rparr>, isRecording := True\<rparr>"

definition spawnOk :: "string option \<Rightarrow> string option list \<Rightarrow> string + child_process" where
  "spawnOk file args = Inr \<lparr> pid = Some 4242 \<rparr>"

definition abortMessage :: string where
  "abortMessage = ''The user aborted a request.''"

definition dshowOutput :: string where
  "dshowOutput =
     ''[dshow] DirectShow audio devices'' @ [CHR 0x0A] @
     ''[dshow]  '' @ [dquote] @ ''Microphone (Realtek Audio)'' @ [dquote] @ '' (audio)''
       @ [CHR 0x0A] @
     ''[dshow]  '' @ [dquote] @ ''Integrated Camera'' @ [dquote] @ '' (video)'' @ [CHR 0x0A] @
     ''[dshow]  '' @ [dquote] @ ''Line In'' @ [dquote] @ '' (audio)''"

definition dshowExec :: "string \<Rightarrow> string list \<Rightarrow> exec_outcome" where
  "dshowExec file args = Rejected (Some dshowOutput)"

definition webEnv :: "filesystem \<Rightarrow> fetch_outcome \<Rightarrow> ipc_env" where
  "webEnv fs net =
     \<lparr> hasApiKey = True, audioHelper = Some idleHelper, mainWindow = True,
       tmpdir = ''/tmp'', uuidv4 = Inr ''7'',
       fromBase64 = (\<lambda>s. if s = ''AAAA'' then [0, 0, 0] else []),
       paths = posix, files = fs, configApiKey = Some ''sk-1'', network = net \<rparr>"

definition webPayload :: string where
  "webPayload = ''data:audio/webm;base64,AAAA''"

definition webTempFile :: string where
  "webTempFile = ''/tmp/voice-assistant/web-audio-7.webm''"

definition helloResponse :: fetch_outcome where
  "helloResponse = Response True ''OK'' (JsonValue None (Some ''hello''))"

section \<open>Properties of the fallback synthesizer\<close>

lemma wavHeader_length: "length wavHeader = 44"
  by (simp add: wavHeader_def)

lemma wavHeader_fields:
  "wav_format wavHeader = 1" "wav_channels wavHeader = 1"
  "wav_sample_rate wavHeader = 44100" "wav_bits wavHeader = 16"
  "wav_data_size wavHeader = 0" "wav_byte_rate wavHeader = 88200"
  "wav_block_align wavHeader = 2"
  by (simp_all add: wavHeader_def wav_format_def wav_channels_def wav_sample_rate_def
      wav_bits_def wav_data_size_def wav_byte_rate_def wav_block_align_def le16_def le32_def)

lemma wavHeader_valid: "wav_valid wavHeader"
  unfolding wav_valid_def wavHeader_length wavHeader_fields
  by (simp add: wavHeader_def tag_at_def le32_def le16_def)

lemma simulateRecording_success_writes:
  assumes "simulateRecording h fs = (r, h', fs')" and "success r"
  shows "\<exists>p. currentRecordingPath h = Some p \<and> nodes fs' p = Some (File wavHeader)
           \<and> path r = Some p \<and> isRecording h'"
  using assms
  by (auto simp: simulateRecording_def writeFileSync_def rec_fail_def rec_ok_def
      split: option.splits sum.splits node.splits)

text \<open>
  C3. Every successful run of \<^verbatim>\<open>simulateRecording\<close> leaves at the current recording path
  a file whose content is exactly the fixed 44-byte header; that header is a structurally
  valid WAV file declaring PCM, one channel, 44100 Hz, 16 bits per sample and a data chunk
  of zero bytes.
\<close>

theorem simulateRecording_writes_valid_wav:
  assumes "simulateRecording h fs = (r, h', fs')" and "success r"
  shows "\<exists>p content. currentRecordingPath h = Some p \<and> nodes fs' p = Some (File content)
           \<and> content = wavHeader \<and> length content = 44 \<and> wav_valid content
           \<and> wav_format content = 1 \<and> wav_channels content = 1
           \<and> wav_sample_rate content = 44100 \<and> wav_bits content = 16
           \<and> wav_data_size content = 0"
  using simulateRecording_success_writes [OF assms]
  by (auto simp: wavHeader_length wavHeader_fields wavHeader_valid)

theorem simulateRecording_writes_valid_wav_witness:
  "success (fst (simulateRecording pendingHelper emptyDisk)) \<and>
   (\<exists>p content. currentRecordingPath pendingHelper = Some p
      \<and> nodes (snd (snd (simulateRecording pendingHelper emptyDisk))) p = Some (File content)
      \<and> content = wavHeader \<and> length content = 44 \<and> wav_valid content
      \<and> wav_format content = 1 \<and> wav_channels content = 1
      \<and> wav_sample_rate content = 44100 \<and> wav_bits content = 16
      \<and> wav_data_size content = 0)"
proof -
  obtain r h' fs' where run: "simulateRecording pendingHelper emptyDisk = (r, h', fs')"
    by (cases "simulateRecording pendingHelper emptyDisk") auto
  then have ok: "success r"
    by (auto simp: simulateRecording_def pendingHelper_def idleHelper_def newAudioHelper_def
        emptyDisk_def writeFileSync_def rec_ok_def)
  from simulateRecording_writes_valid_wav [OF run ok] run ok show ?thesis by simp
qed

section \<open>Properties of the recording controller\<close>

lemma verifyAndReset_cases:
  "verifyAndReset h fs = (r, h') \<Longrightarrow>
     (\<not> isRecording h' \<and> currentRecordingPath h' = None \<and> success r) \<or>
     (h' = h \<and> truthy (currentRecordingPath h)
        \<and> \<not> existsSync fs (the (currentRecordingPath h))
        \<and> r = rec_fail ''Recording file not found after stopping'')"
  by (auto simp: verifyAndReset_def rec_ok_def split: if_splits)

lemma stopFailed_resets:
  "stopFailed h msg = (r, h') \<Longrightarrow>
     \<not> isRecording h' \<and> currentRecordingPath h' = None \<and> \<not> success r"
  by (auto simp: stopFailed_def rec_fail_def)


text \<open>A \<^verbatim>\<open>kill()\<close> that throws outside Windows ends in the outer handler, which resets.\<close>

lemma stopRecording_kill_failure_resets:
  assumes "isRecording h" and "recordingProcess h = Some p" and "plat \<noteq> Win32"
    and "stopRecording h plat (Some msg) taskkillError fs = (r, h', acts)"
  shows "\<not> isRecording h' \<and> currentRecordingPath h' = None
         \<and> r = rec_fail (''Failed to stop recording: '' @ msg)"
  using assms
  by (auto simp: stopRecording_def stopFailed_def split: if_splits prod.splits)

text \<open>
  The one path that does not reset: a session with a process handle whose artifact is
  missing once the process has been terminated. The early \<^verbatim>\<open>return\<close> of the artifact
  check leaves the flag up and the path in place; only the handle is dropped.
\<close>

lemma stopRecording_capture_missing:
  assumes "isRecording h" and "recordingProcess h = Some p"
    and "plat = Win32 \<or> killError = None"
    and "truthy (currentRecordingPath h)"
    and "\<not> existsSync fs (the (currentRecordingPath h))"
    and "stopRecording h plat killError taskkillError fs = (r, h', acts)"
  shows "r = rec_fail ''Recording file not found after stopping''
         \<and> h' = h\<lparr>recordingProcess := None\<rparr>"
  using assms
  by (auto simp: stopRecording_def verifyAndReset_def Let_def
      split: if_splits prod.splits option.splits)

lemma stopRecording_resets_or_capture_missing:
  assumes "isRecording h"
    and "stopRecording h plat killError taskkillError fs = (r, h', acts)"
  shows "(\<not> isRecording h' \<and> currentRecordingPath h' = None) \<or>
         (recordingProcess h \<noteq> None \<and> h' = h\<lparr>recordingProcess := None\<rparr>
            \<and> r = rec_fail ''Recording file not found after stopping'')"
  using assms
  by (auto simp: stopRecording_def verifyAndReset_def stopFailed_def Let_def
      split: if_splits prod.splits option.splits)

text \<open>
  An instance of that path: a session as the hardware path leaves it on Linux, stopped when
  its artifact does not exist. \<^verbatim>\<open>startRecording\<close> does not take the hardware path, so
  no sequence of calls brings the object into this state.
\<close>

lemma capture_session_missing_artifact_keeps_flag:
  "fst (snd (startFFmpegRecording pendingHelper Linux dshowExec spawnOk emptyDisk)) = captureSession
   \<and> stopRecording captureSession Linux None None emptyDisk =
       (rec_fail ''Recording file not found after stopping'',
        captureSession\<lparr>recordingProcess := None\<rparr>, [Kill])
   \<and> isRecording (fst (snd (stopRecording captureSession Linux None None emptyDisk)))
   \<and> currentRecordingPath (fst (snd (stopRecording captureSession Linux None None emptyDisk)))
       = Some ''/data/audio/recording-1.wav''"
  by (simp add: startFFmpegRecording_def spawnOk_def stopRecording_def captureSession_def
      pendingHelper_def idleHelper_def newAudioHelper_def emptyDisk_def verifyAndReset_def
      truthy_def existsSync_def)

subsection \<open>Stopping a session\<close>









text \<open>
  The hardware path on Windows ends in the synthesizer whatever was discovered. Its choice
  of a capture device uses three name fragments, not the five of the discovery log: a
  device named after ``Input'' only is passed over.
\<close>

lemma startWindowsRecording_is_simulateRecording:
  "startWindowsRecording h plat exec fs = simulateRecording h fs"
  by (simp add: startWindowsRecording_def split: option.splits)

lemma microphoneDevice_examples:
  "microphoneDevice [''Line In'', ''Stereo Input''] = Some ''Line In''"
  "microphoneDevice [''Line In'', ''USB Headset''] = Some ''USB Headset''"
  "firstIncluded commonMicNames ''Stereo Input'' = Some ''Input''"
  by (simp_all add: microphoneDevice_def windowsMicNames_def commonMicNames_def)

text \<open>Further starts during a session change nothing, however many there are.\<close>

lemma run_starts_while_recording:
  assumes "isRecording h" and "\<forall>c \<in> set calls. \<exists>uuid. c = StartRecording uuid"
  shows "run api plat (h, fs) calls = (h, fs)"
  using assms unfolding run_def
  by (induction calls) (auto simp: startRecording_def)

lemma startRecording_while_recording:
  "isRecording h \<Longrightarrow> startRecording h api uuid fs = (rec_fail ''Already recording'', h, fs)"
  by (simp add: startRecording_def)

lemma simulateRecording_success_flag:
  "simulateRecording h fs = (r, h', fs') \<Longrightarrow> success r \<Longrightarrow> isRecording h'"
  by (auto simp: simulateRecording_def rec_fail_def split: sum.splits option.splits)

lemma startRecording_success_flag:
  "startRecording h api uuid fs = (r, h', fs') \<Longrightarrow> success r \<Longrightarrow> isRecording h'"
  by (auto simp: startRecording_def rec_fail_def simulateRecording_success_flag
      split: if_splits sum.splits)

lemma sessionState_range: "sessionState h \<in> {Idle, Recording, Stopping}"
  by (simp add: sessionState_def)

text \<open>
  C2, as claimed: after any two \<^verbatim>\<open>startRecording\<close> calls with no \<^verbatim>\<open>stopRecording\<close>
  between them the second one fails with the already-recording error. It does not when the
  first call failed: on a disk that refuses the write the first call reports the failure
  and leaves the flag down, and the second call, made once the disk accepts writes, starts
  a session.
\<close>

theorem second_start_after_failed_start_succeeds:
  "fst (startRecording idleHelper posix (Inr ''1'') fullDisk) =
     rec_fail ''Failed to simulate recording: ENOSPC: no space left on device, write''
   \<and> fst (startRecording (fst (snd (startRecording idleHelper posix (Inr ''1'') fullDisk)))
            posix (Inr ''2'') emptyDisk) = rec_ok (Some ''/data/audio/recording-2.wav'')
   \<and> error (fst (startRecording (fst (snd (startRecording idleHelper posix (Inr ''1'') fullDisk)))
            posix (Inr ''2'') emptyDisk)) \<noteq> Some ''Already recording''"
  by (simp add: startRecording_def simulateRecording_def writeFileSync_def idleHelper_def
      newAudioHelper_def fullDisk_def emptyDisk_def posix_def rec_fail_def rec_ok_def)

text \<open>
  C2, amended. Along every sequence of calls the session state stays within idle,
  recording and stopping; and a \<^verbatim>\<open>startRecording\<close> call that follows a successful one
  with no \<^verbatim>\<open>stopRecording\<close> in between fails with the already-recording error and
  changes neither the object (flag, path) nor the file system.
\<close>

theorem start_rejected_after_successful_start:
  "sessionState (fst (run api plat w calls)) \<in> {Idle, Recording, Stopping} \<and>
   (startRecording h api uuid fs = (r, h', fs') \<and> success r \<longrightarrow>
      startRecording h' api uuid2 fs2 = (rec_fail ''Already recording'', h', fs2))"
  using startRecording_success_flag startRecording_while_recording sessionState_range
  by blast

theorem start_rejected_after_successful_start_witness:
  "sessionState (fst (run posix Linux (idleHelper, emptyDisk)
      [StartRecording (Inr ''1''), StartRecording (Inr ''2''), StopRecording None None]))
     \<in> {Idle, Recording, Stopping}
   \<and> success (fst (startRecording idleHelper posix (Inr ''1'') emptyDisk))
   \<and> startRecording (fst (snd (startRecording idleHelper posix (Inr ''1'') emptyDisk)))
        posix (Inr ''2'') emptyDisk =
      (rec_fail ''Already recording'',
       fst (snd (startRecording idleHelper posix (Inr ''1'') emptyDisk)), emptyDisk)"
proof -
  obtain r h' fs' where
    first: "startRecording idleHelper posix (Inr ''1'') emptyDisk = (r, h', fs')"
    by (cases "startRecording idleHelper posix (Inr ''1'') emptyDisk") auto
  then have ok: "success r"
    by (auto simp: startRecording_def simulateRecording_def writeFileSync_def idleHelper_def
        newAudioHelper_def emptyDisk_def rec_ok_def)
  from start_rejected_after_successful_start
    [of posix Linux "(idleHelper, emptyDisk)"
      "[StartRecording (Inr ''1''), StartRecording (Inr ''2''), StopRecording None None]"
      idleHelper "Inr ''1''" emptyDisk r h' fs' "Inr ''2''" emptyDisk]
    first ok
  show ?thesis by simp
qed

subsection \<open>The flag and the path\<close>

lemma simulateRecording_inv:
  "recordingHasPath h \<Longrightarrow> recordingHasPath (fst (snd (simulateRecording h fs)))"
  by (auto simp: simulateRecording_def recordingHasPath_def split: sum.splits option.splits)

lemma startRecording_inv:
  "recordingHasPath h \<Longrightarrow> recordingHasPath (fst (snd (startRecording h api uuid fs)))"
  by (auto simp: startRecording_def simulateRecording_def recordingHasPath_def
      split: sum.splits option.splits)

lemma stopRecording_inv:
  "recordingHasPath h \<Longrightarrow>
     recordingHasPath (fst (snd (stopRecording h plat killError taskkillError fs)))"
  by (auto simp: stopRecording_def verifyAndReset_def stopFailed_def recordingHasPath_def
      Let_def split: if_splits prod.splits option.splits)

lemma step_inv:
  "recordingHasPath (fst w) \<Longrightarrow> recordingHasPath (fst (step api plat w c))"
proof (cases w)
  case (Pair h fs)
  assume "recordingHasPath (fst w)"
  with Pair show ?thesis
    by (cases c) (simp_all add: startRecording_inv stopRecording_inv)
qed

lemma run_inv:
  "recordingHasPath (fst w) \<Longrightarrow> recordingHasPath (fst (run api plat w calls))"
  unfolding run_def by (induction calls arbitrary: w) (simp_all add: step_inv)

lemma status_of_inv:
  "recordingHasPath h \<Longrightarrow> getRecordingStatus h \<noteq> \<lparr> recording = True, recordingPath = None \<rparr>"
  by (auto simp: recordingHasPath_def getRecordingStatus_def)

text \<open>
  C10. Whenever the recording flag is up the current recording path is set: the property
  is kept by \<^verbatim>\<open>startRecording\<close>, \<^verbatim>\<open>simulateRecording\<close> and \<^verbatim>\<open>stopRecording\<close>
  (\<^verbatim>\<open>getRecordingStatus\<close> reads the object and returns no new one); so it holds after
  every sequence of calls on a fresh object, and \<^verbatim>\<open>getRecordingStatus\<close> never reports
  a recording without a path.
\<close>

theorem recording_flag_implies_path:
  "(recordingHasPath h \<longrightarrow>
      recordingHasPath (fst (snd (startRecording h api uuid fs)))
      \<and> recordingHasPath (fst (snd (simulateRecording h fs)))
      \<and> recordingHasPath (fst (snd (stopRecording h plat killError taskkillError fs)))
      \<and> getRecordingStatus h \<noteq> \<lparr> recording = True, recordingPath = None \<rparr>)
   \<and> recordingHasPath (fst (run api plat (newAudioHelper dir ffmpeg, fs0) calls))
   \<and> getRecordingStatus (fst (run api plat (newAudioHelper dir ffmpeg, fs0) calls))
        \<noteq> \<lparr> recording = True, recordingPath = None \<rparr>"
proof -
  have fresh: "recordingHasPath (fst (newAudioHelper dir ffmpeg, fs0))"
    by (simp add: recordingHasPath_def newAudioHelper_def)
  from run_inv [OF fresh]
  have reach: "recordingHasPath (fst (run api plat (newAudioHelper dir ffmpeg, fs0) calls))" .
  from reach status_of_inv [OF reach] show ?thesis
    by (simp add: startRecording_inv simulateRecording_inv stopRecording_inv status_of_inv)
qed

theorem recording_flag_implies_path_witness:
  "recordingHasPath captureSession
   \<and> recordingHasPath (fst (snd (startRecording captureSession posix (Inr ''2'') emptyDisk)))
   \<and> recordingHasPath (fst (snd (simulateRecording captureSession emptyDisk)))
   \<and> recordingHasPath (fst (snd (stopRecording captureSession Linux None None emptyDisk)))
   \<and> getRecordingStatus captureSession \<noteq> \<lparr> recording = True, recordingPath = None \<rparr>
   \<and> getRecordingStatus (fst (run posix Linux (newAudioHelper ''/data/audio'' None, emptyDisk)
        [StartRecording (Inr ''1''), StopRecording None None, StartRecording (Inr ''2'')]))
        \<noteq> \<lparr> recording = True, recordingPath = None \<rparr>"
proof -
  have inv: "recordingHasPath captureSession"
    by (simp add: recordingHasPath_def captureSession_def pendingHelper_def)
  from recording_flag_implies_path
    [of captureSession posix "Inr ''2''" emptyDisk Linux None None
      "''/data/audio''" None emptyDisk
      "[StartRecording (Inr ''1''), StopRecording None None, StartRecording (Inr ''2'')]"]
    inv
  show ?thesis by simp
qed

section \<open>Properties of the transcription client\<close>

text \<open>
  C5. When no file exists at the resolved location (the path itself when it is absolute,
  the path joined under the audio directory otherwise), \<^verbatim>\<open>transcribeAudio\<close> fails with
  the error ``Audio file not found'' and sets no timer and sends no request, whatever the
  configuration and the network are.
\<close>

theorem transcribe_missing_file_fails_without_request:
  assumes "\<not> existsSync fs
             (if pathIsAbsolute api audioPath then audioPath
              else pathJoin api (audioDir h) audioPath)"
  shows "transcribeAudio h api fs apiKey net audioPath = (tr_fail ''Audio file not found'', [])"
  using assms by (simp add: transcribeAudio_def fullPath_def)

theorem transcribe_missing_file_fails_without_request_witness:
  "\<not> existsSync emptyDisk
       (if pathIsAbsolute posix ''clip.wav'' then ''clip.wav''
        else pathJoin posix (audioDir idleHelper) ''clip.wav'')
   \<and> transcribeAudio idleHelper posix emptyDisk (Some ''sk-1'')
        (Response True ''OK'' (JsonValue None (Some ''hello''))) ''clip.wav''
      = (tr_fail ''Audio file not found'', [])"
proof -
  have missing: "\<not> existsSync emptyDisk
       (if pathIsAbsolute posix ''clip.wav'' then ''clip.wav''
        else pathJoin posix (audioDir idleHelper) ''clip.wav'')"
    by (simp add: existsSync_def emptyDisk_def)
  from transcribe_missing_file_fails_without_request [OF missing] missing
  show ?thesis by blast
qed

text \<open>
  C6. When the artifact exists and the configuration holds no API key (none at all, or the
  empty string), \<^verbatim>\<open>transcribeAudio\<close> fails with the error ``OpenAI API key not
  configured'' and sets no timer and sends no request.
\<close>

theorem transcribe_without_key_fails_without_request:
  assumes "existsSync fs (fullPath h api audioPath)"
    and "apiKey = None \<or> apiKey = Some []"
  shows "transcribeAudio h api fs apiKey net audioPath =
           (tr_fail ''OpenAI API key not configured'', [])"
  using assms by (auto simp: transcribeAudio_def truthy_def)

theorem transcribe_without_key_fails_without_request_witness:
  "existsSync clipDisk (fullPath idleHelper posix ''clip.wav'')
   \<and> transcribeAudio idleHelper posix clipDisk None
        (Response True ''OK'' (JsonValue None (Some ''hello''))) ''clip.wav''
      = (tr_fail ''OpenAI API key not configured'', [])"
proof -
  have present: "existsSync clipDisk (fullPath idleHelper posix ''clip.wav'')"
    by (simp add: existsSync_def clipDisk_def fullPath_def posix_def idleHelper_def
        newAudioHelper_def)
  from transcribe_without_key_fails_without_request [OF present, of None] present
  show ?thesis by blast
qed

lemma readable_exists: "readFileSync fs p = Inr content \<Longrightarrow> existsSync fs p"
  by (auto simp: readFileSync_def existsSync_def split: option.splits node.splits)

text \<open>Every call that sets the timer clears it as its last effect.\<close>

lemma transcribeAudio_timer_cleared:
  "snd (transcribeAudio h api fs apiKey net audioPath) = [] \<or>
   (\<exists>between. snd (transcribeAudio h api fs apiKey net audioPath)
       = TimerSet 30000 # between @ [TimerCleared])"
  by (auto simp: transcribeAudio_def Let_def
      split: sum.splits fetch_outcome.splits json_outcome.splits)

text \<open>
  C7, as claimed: a call whose request outlasts the timer fails with a timeout
  classification of its own. The result of such a call is the one any rejected request
  gives: with the same error message, a run in which the timer fired and a run in which
  the request was rejected return the same value, namely the generic failure wrapper
  around that message.
\<close>

theorem timeout_result_is_generic_failure:
  "fst (transcribeAudio idleHelper posix clipDisk (Some ''sk-1'') (TimerFires abortMessage)
          ''clip.wav'')
   = fst (transcribeAudio idleHelper posix clipDisk (Some ''sk-1'') (FetchRejects abortMessage)
          ''clip.wav'')
   \<and> tr_error (fst (transcribeAudio idleHelper posix clipDisk (Some ''sk-1'')
          (TimerFires abortMessage) ''clip.wav''))
     = Some ''Failed to transcribe audio: The user aborted a request.''"
  by (simp add: transcribeAudio_def idleHelper_def newAudioHelper_def posix_def clipDisk_def
      fullPath_def existsSync_def readFileSync_def truthy_def transcribeFailed_def tr_fail_def
      abortMessage_def)

text \<open>
  C7, amended. When the artifact can be read, a key is configured and the 30-second timer
  fires while the request is in flight, the request is aborted, the call fails with the
  generic failure ``Failed to transcribe audio: '' followed by the message of the abort
  error (the wrapper every thrown error gets; there is no separate timeout error), and the
  timer is cleared as the last effect before the call returns.
\<close>

theorem transcribe_timeout_aborts_and_clears_timer:
  assumes "readFileSync fs (fullPath h api audioPath) = Inr audioData"
    and "truthy apiKey"
  shows "transcribeAudio h api fs apiKey (TimerFires msg) audioPath =
     (tr_fail (''Failed to transcribe audio: '' @ msg),
      [TimerSet 30000,
       RequestSent transcriptionUrl (''Bearer '' @ the apiKey)
         (pathBasename api (fullPath h api audioPath)) audioData,
       RequestAborted, TimerCleared])"
  using assms readable_exists [OF assms(1)]
  by (simp add: transcribeAudio_def transcribeFailed_def)

theorem transcribe_timeout_aborts_and_clears_timer_witness:
  "readFileSync clipDisk (fullPath idleHelper posix ''clip.wav'') = Inr wavHeader
   \<and> truthy (Some ''sk-1'')
   \<and> transcribeAudio idleHelper posix clipDisk (Some ''sk-1'') (TimerFires abortMessage)
        ''clip.wav'' =
     (tr_fail (''Failed to transcribe audio: '' @ abortMessage),
      [TimerSet 30000,
       RequestSent transcriptionUrl ''Bearer sk-1'' ''clip.wav'' wavHeader,
       RequestAborted, TimerCleared])"
proof -
  have readable: "readFileSync clipDisk (fullPath idleHelper posix ''clip.wav'') = Inr wavHeader"
    by (simp add: readFileSync_def clipDisk_def fullPath_def posix_def idleHelper_def
        newAudioHelper_def)
  have key: "truthy (Some ''sk-1'')" by (simp add: truthy_def)
  from transcribe_timeout_aborts_and_clears_timer [OF readable key, of abortMessage]
  have "transcribeAudio idleHelper posix clipDisk (Some ''sk-1'') (TimerFires abortMessage)
        ''clip.wav'' =
     (tr_fail (''Failed to transcribe audio: '' @ abortMessage),
      [TimerSet 30000,
       RequestSent transcriptionUrl ''Bearer sk-1'' ''clip.wav'' wavHeader,
       RequestAborted, TimerCleared])"
    by (simp add: fullPath_def posix_def idleHelper_def newAudioHelper_def)
  with readable key show ?thesis by blast
qed

section \<open>Properties of the inline-payload command\<close>

lemma writeFileSync_ok:
  "writeFileSync fs p content = Inr fs' \<Longrightarrow>
     nodes fs' p = Some (File content) \<and> refuses fs' = refuses fs"
  by (auto simp: writeFileSync_def split: option.splits node.splits)

lemma saveWebAudio_ok:
  "saveWebAudio env base64Audio = Inr (p, fs2) \<Longrightarrow>
     (\<exists>content. nodes fs2 p = Some (File content)) \<and> refuses fs2 = refuses (files env)"
  by (auto simp: saveWebAudio_def mkdirSync_def dest!: writeFileSync_ok
      split: list.splits sum.splits if_splits option.splits node.splits)

lemma cleanup_file:
  "nodes fs p = Some (File content) \<Longrightarrow>
     cleanup fs p =
       (if refuses fs OpUnlink p = None then fs\<lparr>nodes := (nodes fs)(p := None)\<rparr> else fs)"
  by (auto simp: cleanup_def unlinkSync_def split: option.splits)

lemma transcribeWebAudio_saved:
  assumes "hasApiKey env" and "audioHelper env = Some h"
    and "saveWebAudio env base64Audio = Inr (p, fs2)"
  shows "filesAfter (transcribeWebAudio env base64Audio) = cleanup fs2 p"
    and "response (transcribeWebAudio env base64Audio) =
           fst (transcribeAudio h (paths env) fs2 (configApiKey env) (network env) p)"
  using assms by (simp_all add: transcribeWebAudio_def split: prod.splits)

text \<open>
  C4, as claimed: once the payload has been written to the temporary file, the file is
  gone when the command returns. On a host that lets the file be created but refuses to
  remove it, the command returns the transcript and the temporary file is still there: the
  failed removal is caught and logged, nothing more.
\<close>

theorem web_audio_temp_file_left_when_unlink_refused:
  "tr_success (response (transcribeWebAudio (webEnv busyDisk helloResponse) webPayload))
   \<and> tr_text (response (transcribeWebAudio (webEnv busyDisk helloResponse) webPayload))
       = Some ''hello''
   \<and> nodes (filesAfter (transcribeWebAudio (webEnv busyDisk helloResponse) webPayload))
        webTempFile = Some (File [0, 0, 0])"
  by (simp add: transcribeWebAudio_def saveWebAudio_def webEnv_def webPayload_def
      webTempFile_def helloResponse_def busyDisk_def tempDir_def tempFilePath_def posix_def
      existsSync_def mkdirSync_def writeFileSync_def cleanup_def unlinkSync_def
      transcribeAudio_def fullPath_def readFileSync_def truthy_def idleHelper_def
      newAudioHelper_def)

text \<open>
  C4, amended. Once the payload has been decoded and written to the temporary file, the
  command removes that file after the transcription call has returned and before it
  returns itself, whether the transcription succeeded or failed; the file is absent
  afterwards unless the host refuses the removal, in which case the file system is left
  as it was and the command still returns the transcription result.
\<close>

theorem web_audio_temp_file_removed_unless_unlink_refused:
  assumes "hasApiKey env" and "audioHelper env = Some h"
    and "saveWebAudio env base64Audio = Inr (p, fs2)"
  shows "response (transcribeWebAudio env base64Audio) =
           fst (transcribeAudio h (paths env) fs2 (configApiKey env) (network env) p)
         \<and> nodes fs2 p \<noteq> None
         \<and> (refuses (files env) OpUnlink p = None \<longrightarrow>
              nodes (filesAfter (transcribeWebAudio env base64Audio)) p = None)
         \<and> (refuses (files env) OpUnlink p \<noteq> None \<longrightarrow>
              filesAfter (transcribeWebAudio env base64Audio) = fs2)"
proof -
  from saveWebAudio_ok [OF assms(3)] obtain content where
    written: "nodes fs2 p = Some (File content)" and same: "refuses fs2 = refuses (files env)"
    by blast
  from transcribeWebAudio_saved [OF assms] cleanup_file [OF written] same written
  show ?thesis by auto
qed

theorem web_audio_temp_file_removed_unless_unlink_refused_witness:
  "hasApiKey (webEnv emptyDisk (TimerFires abortMessage))
   \<and> audioHelper (webEnv emptyDisk (TimerFires abortMessage)) = Some idleHelper
   \<and> (\<exists>fs2. saveWebAudio (webEnv emptyDisk (TimerFires abortMessage)) webPayload
              = Inr (webTempFile, fs2) \<and> nodes fs2 webTempFile \<noteq> None)
   \<and> refuses (files (webEnv emptyDisk (TimerFires abortMessage))) OpUnlink webTempFile = None
   \<and> \<not> tr_success (response (transcribeWebAudio (webEnv emptyDisk (TimerFires abortMessage))
          webPayload))
   \<and> nodes (filesAfter (transcribeWebAudio (webEnv emptyDisk (TimerFires abortMessage))
        webPayload)) webTempFile = None"
proof -
  let ?env = "webEnv emptyDisk (TimerFires abortMessage)"
  have key: "hasApiKey ?env" and helper: "audioHelper ?env = Some idleHelper"
    and free: "refuses (files ?env) OpUnlink webTempFile = None"
    by (simp_all add: webEnv_def emptyDisk_def)
  obtain fs2 where saved: "saveWebAudio ?env webPayload = Inr (webTempFile, fs2)"
    by (simp add: saveWebAudio_def webEnv_def webPayload_def webTempFile_def emptyDisk_def
        tempDir_def tempFilePath_def posix_def existsSync_def mkdirSync_def writeFileSync_def)
  have failed: "\<not> tr_success (response (transcribeWebAudio ?env webPayload))"
    by (simp add: transcribeWebAudio_def saveWebAudio_def webEnv_def webPayload_def
        emptyDisk_def tempDir_def tempFilePath_def posix_def existsSync_def mkdirSync_def
        writeFileSync_def transcribeAudio_def fullPath_def readFileSync_def truthy_def
        idleHelper_def newAudioHelper_def transcribeFailed_def tr_fail_def)
  from web_audio_temp_file_removed_unless_unlink_refused [OF key helper saved] free
  have "nodes fs2 webTempFile \<noteq> None"
    and "nodes (filesAfter (transcribeWebAudio ?env webPayload)) webTempFile = None"
    by simp_all
  with key helper saved free failed show ?thesis by blast
qed

section \<open>Properties of device discovery\<close>

lemma startsWith_iff: "startsWith s sub \<longleftrightarrow> (\<exists>post. s = sub @ post)"
  by (induction s sub rule: startsWith.induct) auto

lemma str_includes_iff: "str_includes s sub \<longleftrightarrow> (\<exists>pre post. s = pre @ sub @ post)"
proof (induction s)
  case Nil
  then show ?case by auto
next
  case (Cons x xs)
  have "(\<exists>pre post. x # xs = pre @ sub @ post) \<longleftrightarrow>
        (\<exists>post. x # xs = sub @ post) \<or> (\<exists>pre post. xs = pre @ sub @ post)"
    (is "?L \<longleftrightarrow> ?A \<or> ?B")
  proof
    assume ?L
    then obtain pre post where eq: "x # xs = pre @ sub @ post" by blast
    show "?A \<or> ?B"
    proof (cases pre)
      case Nil
      with eq show ?thesis by auto
    next
      case (Cons y ys)
      with eq have "xs = ys @ sub @ post" by simp
      then show ?thesis by blast
    qed
  next
    assume "?A \<or> ?B"
    then show ?L
    proof
      assume ?A
      then obtain post where "x # xs = [] @ sub @ post" by auto
      then show ?L by blast
    next
      assume ?B
      then obtain pre post where "xs = pre @ sub @ post" by blast
      then have "x # xs = (x # pre) @ sub @ post" by simp
      then show ?L by blast
    qed
  qed
  with Cons show ?case by (simp add: startsWith_iff)
qed

text \<open>What the regular expression extracts: a non-empty quoted segment without quotes.\<close>

lemma match_quoted_Some:
  "match_quoted l = Some n \<Longrightarrow>
     n \<noteq> [] \<and> dquote \<notin> set n \<and> (\<exists>pre post. l = pre @ dquote # n @ dquote # post)"
proof (induction l)
  case Nil
  then show ?case by simp
next
  case (Cons c cs)
  let ?t = "takeWhile (\<lambda>x. x \<noteq> dquote) cs"
  let ?d = "dropWhile (\<lambda>x. x \<noteq> dquote) cs"
  show ?case
  proof (cases "c = dquote \<and> ?t \<noteq> [] \<and> ?d \<noteq> []")
    case True
    with Cons.prems have n: "n = ?t" by simp
    from True have "hd ?d = dquote" using hd_dropWhile [of "\<lambda>x. x \<noteq> dquote" cs] by auto
    with True have d: "?d = dquote # tl ?d" by (cases ?d) auto
    have "cs = ?t @ ?d" by simp
    with d have "c # cs = [] @ dquote # ?t @ dquote # tl ?d" using True by simp
    then have ex: "\<exists>pre post. c # cs = pre @ dquote # n @ dquote # post"
      unfolding n by (intro exI)
    have "dquote \<notin> set ?t" by (auto dest: set_takeWhileD)
    with ex n True show ?thesis by simp
  next
    case False
    with Cons.prems have "match_quoted cs = Some n" by (auto split: if_splits)
    from Cons.IH [OF this] obtain pre post where
      "n \<noteq> []" "dquote \<notin> set n" "cs = pre @ dquote # n @ dquote # post" by blast
    then have "c # cs = (c # pre) @ dquote # n @ dquote # post" by simp
    with \<open>n \<noteq> []\<close> \<open>dquote \<notin> set n\<close> show ?thesis by blast
  qed
qed

text \<open>
  The pieces of a split do not contain the separator, and putting the separator back in
  front of every piece gives the separator followed by the original string.
\<close>

lemma split_on_pieces: "l \<in> set (split_on c s) \<Longrightarrow> c \<notin> set l"
  by (induction s arbitrary: l) (auto split: if_splits list.splits)

lemma split_on_join: "concat (map (\<lambda>l. c # l) (split_on c s)) = c # s"
  by (induction s) (auto split: list.splits)

lemma scanLines_acc:
  "scanLines ls acc =
     acc @ List.map_filter
             (\<lambda>line. if str_includes line audioMarker then match_quoted line else None) ls"
  by (induction ls arbitrary: acc) (auto simp: List.map_filter_simps split: option.splits)

lemma firstIncluded_find: "firstIncluded names d = List.find (\<lambda>n. str_includes d n) names"
  by (induction names) auto

lemma firstIncluded_None:
  "firstIncluded names d = None \<longleftrightarrow> (\<forall>n\<in>set names. \<not> str_includes d n)"
  by (induction names) auto

lemma firstIncluded_Some:
  "firstIncluded names d = Some n \<longleftrightarrow>
     (\<exists>i<length names. names ! i = n \<and> str_includes d n
        \<and> (\<forall>j<i. \<not> str_includes d (names ! j)))"
  unfolding firstIncluded_find find_Some_iff by auto

lemma likelyMicrophoneLines_set:
  "set (likelyMicrophoneLines ds) =
     {FoundLikelyMicrophone d | d. d \<in> set ds \<and> firstIncluded commonMicNames d \<noteq> None}"
  by (induction ds) (auto split: option.splits)

lemma listAudioDevices_mark:
  assumes "d \<in> set (devices (listAudioDevices h plat exec))"
  shows "FoundLikelyMicrophone d \<in> set (console (listAudioDevices h plat exec))
         \<longleftrightarrow> firstIncluded commonMicNames d \<noteq> None"
  using assms
  by (auto simp: listAudioDevices_def noDevices_def Let_def likelyMicrophoneLines_set
      split: if_splits option.splits)

lemma listAudioDevices_eval:
  "listAudioDevices idleHelper Win32 dshowExec =
     \<lparr> devices = [''Microphone (Realtek Audio)'', ''Line In''],
       console = [FoundAudioDevice ''Microphone (Realtek Audio)'', FoundAudioDevice ''Line In'',
                  DetectedAudioDevices [''Microphone (Realtek Audio)'', ''Line In''],
                  FoundLikelyMicrophone ''Microphone (Realtek Audio)''] \<rparr>"
  by (simp add: listAudioDevices_def idleHelper_def newAudioHelper_def dshowExec_def
      dshowOutput_def diagnosticText_def truthy_def scanLines_acc dquote_def audioMarker_def
      commonMicNames_def Let_def)

text \<open>
  C8. For every device that \<^verbatim>\<open>listAudioDevices\<close> returns, the device is reported as a
  likely microphone (the console line ``Found likely microphone device'') exactly when its
  name contains, as a case-sensitive substring, one of Microphone, Mic, Audio, Input,
  Headset; the scan of the five fragments stops at the first one, in that order, that the
  name contains, and the device is reported exactly when the scan stops at a fragment.
\<close>

theorem likely_microphone_iff_name_contains_fragment:
  "\<forall>d \<in> set (devices (listAudioDevices h plat exec)).
     (FoundLikelyMicrophone d \<in> set (console (listAudioDevices h plat exec))
        \<longleftrightarrow> (\<exists>n \<in> set [''Microphone'', ''Mic'', ''Audio'', ''Input'', ''Headset''].
               \<exists>pre post. d = pre @ n @ post))
     \<and> (FoundLikelyMicrophone d \<in> set (console (listAudioDevices h plat exec))
        \<longleftrightarrow> firstIncluded commonMicNames d \<noteq> None)
     \<and> (\<forall>n. firstIncluded commonMicNames d = Some n \<longleftrightarrow>
           (\<exists>i<5. [''Microphone'', ''Mic'', ''Audio'', ''Input'', ''Headset''] ! i = n
              \<and> (\<exists>pre post. d = pre @ n @ post)
              \<and> (\<forall>j<i. \<not> (\<exists>pre post.
                    d = pre @ [''Microphone'', ''Mic'', ''Audio'', ''Input'', ''Headset''] ! j
                          @ post))))"
proof
  fix d
  assume member: "d \<in> set (devices (listAudioDevices h plat exec))"
  have five: "commonMicNames = [''Microphone'', ''Mic'', ''Audio'', ''Input'', ''Headset'']"
    by (simp add: commonMicNames_def)
  have order: "firstIncluded commonMicNames d = Some n \<longleftrightarrow>
           (\<exists>i<5. [''Microphone'', ''Mic'', ''Audio'', ''Input'', ''Headset''] ! i = n
              \<and> (\<exists>pre post. d = pre @ n @ post)
              \<and> (\<forall>j<i. \<not> (\<exists>pre post.
                    d = pre @ [''Microphone'', ''Mic'', ''Audio'', ''Input'', ''Headset''] ! j
                          @ post)))" for n
    unfolding firstIncluded_Some str_includes_iff five by (simp add: eval_nat_numeral)
  have some: "firstIncluded commonMicNames d \<noteq> None \<longleftrightarrow>
        (\<exists>n \<in> set [''Microphone'', ''Mic'', ''Audio'', ''Input'', ''Headset''].
               \<exists>pre post. d = pre @ n @ post)"
    unfolding firstIncluded_None str_includes_iff five by simp
  from listAudioDevices_mark [OF member] some order
  show "(FoundLikelyMicrophone d \<in> set (console (listAudioDevices h plat exec))
        \<longleftrightarrow> (\<exists>n \<in> set [''Microphone'', ''Mic'', ''Audio'', ''Input'', ''Headset''].
               \<exists>pre post. d = pre @ n @ post))
     \<and> (FoundLikelyMicrophone d \<in> set (console (listAudioDevices h plat exec))
        \<longleftrightarrow> firstIncluded commonMicNames d \<noteq> None)
     \<and> (\<forall>n. firstIncluded commonMicNames d = Some n \<longleftrightarrow>
           (\<exists>i<5. [''Microphone'', ''Mic'', ''Audio'', ''Input'', ''Headset''] ! i = n
              \<and> (\<exists>pre post. d = pre @ n @ post)
              \<and> (\<forall>j<i. \<not> (\<exists>pre post.
                    d = pre @ [''Microphone'', ''Mic'', ''Audio'', ''Input'', ''Headset''] ! j
                          @ post))))"
    by blast
qed

theorem likely_microphone_iff_name_contains_fragment_witness:
  "''Microphone (Realtek Audio)'' \<in> set (devices (listAudioDevices idleHelper Win32 dshowExec))
   \<and> FoundLikelyMicrophone ''Microphone (Realtek Audio)''
       \<in> set (console (listAudioDevices idleHelper Win32 dshowExec))
   \<and> (\<exists>n \<in> set [''Microphone'', ''Mic'', ''Audio'', ''Input'', ''Headset''].
         \<exists>pre post. ''Microphone (Realtek Audio)'' = pre @ n @ post)
   \<and> firstIncluded commonMicNames ''Microphone (Realtek Audio)'' \<noteq> None
   \<and> ''Line In'' \<in> set (devices (listAudioDevices idleHelper Win32 dshowExec))
   \<and> FoundLikelyMicrophone ''Line In''
       \<notin> set (console (listAudioDevices idleHelper Win32 dshowExec))
   \<and> \<not> (\<exists>n \<in> set [''Microphone'', ''Mic'', ''Audio'', ''Input'', ''Headset''].
         \<exists>pre post. ''Line In'' = pre @ n @ post)"
proof -
  have mic: "''Microphone (Realtek Audio)''
               \<in> set (devices (listAudioDevices idleHelper Win32 dshowExec))"
    and line: "''Line In'' \<in> set (devices (listAudioDevices idleHelper Win32 dshowExec))"
    and marked: "FoundLikelyMicrophone ''Microphone (Realtek Audio)''
               \<in> set (console (listAudioDevices idleHelper Win32 dshowExec))"
    and unmarked: "FoundLikelyMicrophone ''Line In''
               \<notin> set (console (listAudioDevices idleHelper Win32 dshowExec))"
    by (simp_all add: listAudioDevices_eval)
  from likely_microphone_iff_name_contains_fragment [of idleHelper Win32 dshowExec]
    mic line marked unmarked
  show ?thesis by blast
qed

lemma listAudioDevices_win32:
  assumes "truthy (ffmpegPath h)"
    and "diagnosticText (exec (the (ffmpegPath h)) (listDevicesArgs Win32)) = Some diagnostic"
  shows "devices (listAudioDevices h Win32 exec) = quotedAudioNames diagnostic"
  using assms by (simp add: listAudioDevices_def quotedAudioNames_def scanLines_acc Let_def)

lemma listAudioDevices_other:
  "plat \<noteq> Win32 \<Longrightarrow> devices (listAudioDevices h plat exec) = []"
  by (simp add: listAudioDevices_def noDevices_def split: option.splits)

lemma quotedAudioNames_member:
  assumes "n \<in> set (quotedAudioNames diagnostic)"
  shows "\<exists>line \<in> set (split_on CHR 0x0A diagnostic).
           (\<exists>a b. line = a @ ''(audio)'' @ b)
           \<and> (\<exists>pre post. line = pre @ dquote # n @ dquote # post)
           \<and> n \<noteq> [] \<and> dquote \<notin> set n"
proof -
  from assms obtain line where
    line: "line \<in> set (split_on CHR 0x0A diagnostic)"
    and marker: "str_includes line audioMarker" and name: "match_quoted line = Some n"
    by (auto simp: quotedAudioNames_def List.map_filter_def split: if_splits)
  from marker have "\<exists>a b. line = a @ ''(audio)'' @ b"
    by (simp add: str_includes_iff audioMarker_def)
  with line match_quoted_Some [OF name] show ?thesis by blast
qed

text \<open>
  C9, as claimed: on every platform \<^verbatim>\<open>listAudioDevices\<close> returns the names quoted on
  the lines that carry the audio marker. On Linux the same diagnostic text that yields two
  names on Windows yields none: the parsing block runs on \<^verbatim>\<open>win32\<close> only.
\<close>

theorem no_devices_parsed_on_linux:
  "devices (listAudioDevices idleHelper Linux dshowExec) = []
   \<and> diagnosticText (dshowExec ''/usr/bin/ffmpeg'' (listDevicesArgs Linux)) = Some dshowOutput
   \<and> quotedAudioNames dshowOutput = [''Microphone (Realtek Audio)'', ''Line In'']"
  by (simp add: listAudioDevices_def idleHelper_def newAudioHelper_def dshowExec_def
      dshowOutput_def diagnosticText_def truthy_def noDevices_def quotedAudioNames_def
      dquote_def audioMarker_def)

text \<open>
  C9, amended. When the capture tool is known and the device-listing invocation yields a
  diagnostic text, \<^verbatim>\<open>listAudioDevices\<close> returns on \<^verbatim>\<open>win32\<close> exactly the names
  extracted from the quoted text of those lines that contain the marker \<^verbatim>\<open>(audio)\<close>, in
  their order of appearance (each name a non-empty quoted segment of its line), and on
  every other platform the empty list.
\<close>

theorem listed_devices_are_quoted_names_on_win32:
  assumes "truthy (ffmpegPath h)"
    and "diagnosticText (exec (the (ffmpegPath h)) (listDevicesArgs plat)) = Some diagnostic"
  shows "devices (listAudioDevices h plat exec) =
           (if plat = Win32 then quotedAudioNames diagnostic else [])
         \<and> (\<forall>n \<in> set (quotedAudioNames diagnostic).
               \<exists>line \<in> set (split_on CHR 0x0A diagnostic).
                 (\<exists>a b. line = a @ ''(audio)'' @ b)
                 \<and> (\<exists>pre post. line = pre @ dquote # n @ dquote # post)
                 \<and> n \<noteq> [] \<and> dquote \<notin> set n)"
proof (cases "plat = Win32")
  case True
  with assms listAudioDevices_win32 [of h exec diagnostic] quotedAudioNames_member
  show ?thesis by auto
next
  case False
  with listAudioDevices_other [of plat h exec] quotedAudioNames_member
  show ?thesis by auto
qed

theorem listed_devices_are_quoted_names_on_win32_witness:
  "truthy (ffmpegPath idleHelper)
   \<and> diagnosticText (dshowExec (the (ffmpegPath idleHelper)) (listDevicesArgs Win32))
       = Some dshowOutput
   \<and> devices (listAudioDevices idleHelper Win32 dshowExec) = quotedAudioNames dshowOutput
   \<and> quotedAudioNames dshowOutput = [''Microphone (Realtek Audio)'', ''Line In'']
   \<and> (\<exists>line \<in> set (split_on CHR 0x0A dshowOutput).
         (\<exists>a b. line = a @ ''(audio)'' @ b)
         \<and> (\<exists>pre post. line = pre @ dquote # ''Line In'' @ dquote # post))"
proof -
  have tool: "truthy (ffmpegPath idleHelper)"
    by (simp add: truthy_def idleHelper_def newAudioHelper_def)
  have listing: "diagnosticText (dshowExec (the (ffmpegPath idleHelper)) (listDevicesArgs Win32))
       = Some dshowOutput"
    by (simp add: diagnosticText_def dshowExec_def truthy_def dshowOutput_def)
  have names: "quotedAudioNames dshowOutput = [''Microphone (Realtek Audio)'', ''Line In'']"
    by (simp add: quotedAudioNames_def dshowOutput_def dquote_def audioMarker_def)
  from listed_devices_are_quoted_names_on_win32
    [where h = idleHelper and exec = dshowExec and plat = Win32 and diagnostic = dshowOutput]
    tool listing names
  have "devices (listAudioDevices idleHelper Win32 dshowExec) = quotedAudioNames dshowOutput"
    and "\<exists>line \<in> set (split_on CHR 0x0A dshowOutput).
         (\<exists>a b. line = a @ ''(audio)'' @ b)
         \<and> (\<exists>pre post. line = pre @ dquote # ''Line In'' @ dquote # post)"
    by auto
  with tool listing names show ?thesis by blast
qed

end
